theory Spec2Isabelle
  imports Main "HOL-Library.Word"
begin

unbundle bit_operations_syntax

section \<open>The JavaScript boundary of the CRX parser (src/js/index.js)\<close>

text \<open>
  The JavaScript class \<open>CrxParser\<close> wraps two functions exported by a WebAssembly
  module, \<open>parse_crx\<close> and \<open>extract_zip_data\<close>. The module and its generated loader
  (\<open>../pkg/wasm_crx_parser.js\<close>) lie outside the JavaScript source, so the wrapper is
  modelled over an arbitrary module, a record of its exports. A parser written from
  sections 4.1 and 4.2 of the specification, over a decoder of the CRX3 header body
  that it takes as a parameter, is given further down and plugged in as one such
  module.

  Console output is not modelled, nor are the temporaries built only to be logged
  (line 59); nothing else can reach them.
\<close>

subsection \<open>Values, exceptions and the store\<close>

type_synonym byte = "8 word"

text \<open>
  The JavaScript values that can be thrown and caught here. \<open>JsError m\<close> is an
  \<open>Error\<close> object (or an instance of a subclass such as \<open>TypeError\<close>) whose
  \<open>message\<close> property is the string \<open>m\<close>.
\<close>

datatype js_value = JsUndefined | JsNull | JsStr string | JsError string

text \<open>How a call ends: it returns a value or it throws one (a rejected promise, for
  an \<open>async\<close> function).\<close>

datatype 'a completion = Returned 'a | Threw js_value

text \<open>
  An \<open>ArrayBuffer\<close> is an address in a store of byte sequences. A \<open>Uint8Array\<close> is a
  view: the buffer it looks into, where it starts and how many bytes it spans.
\<close>

type_synonym array_buffer = nat

record uint8array =
  array_buffer :: array_buffer
  byteOffset :: nat
  byteLength :: nat

text \<open>
  The state a call can see and change: the two module-level variables of
  \<open>index.js\<close>, whether the loader has instantiated the WebAssembly module, and the
  store of buffers.
\<close>

record module_state =
  initialized :: bool
  initPromise :: js_value
  wasm_instance :: bool
  heap :: "byte list list"

text \<open>The state of a freshly loaded \<open>index.js\<close> (lines 5 and 6) over a given store.\<close>

definition fresh_module :: "byte list list \<Rightarrow> module_state" where
  "fresh_module h =
     \<lparr>initialized = False, initPromise = JsNull, wasm_instance = False, heap = h\<rparr>"

text \<open>The bytes of a buffer; an address that was never allocated holds none.\<close>

definition contents :: "byte list list \<Rightarrow> array_buffer \<Rightarrow> byte list" where
  "contents h a = (if a < length h then h ! a else [])"

text \<open>The bytes a \<open>Uint8Array\<close> shows.\<close>

definition bytes_of :: "byte list list \<Rightarrow> uint8array \<Rightarrow> byte list" where
  "bytes_of h v = take (byteLength v) (drop (byteOffset v) (contents h (array_buffer v)))"

text \<open>\<open>new Uint8Array(buffer)\<close> on an \<open>ArrayBuffer\<close>: a view of the whole buffer,
  sharing its storage.\<close>

definition new_Uint8Array :: "array_buffer \<Rightarrow> module_state \<Rightarrow> uint8array" where
  "new_Uint8Array a s =
     \<lparr>array_buffer = a, byteOffset = 0, byteLength = length (contents (heap s) a)\<rparr>"

text \<open>
  A \<open>Uint8Array\<close> over newly allocated storage holding the given bytes: what
  \<open>new Uint8Array(typedArray)\<close>, \<open>typedArray.slice(..)\<close> and a byte vector returned
  across the WebAssembly boundary produce.
\<close>

definition alloc :: "byte list \<Rightarrow> module_state \<Rightarrow> uint8array \<times> module_state" where
  "alloc bs s =
     (\<lparr>array_buffer = length (heap s), byteOffset = 0, byteLength = length bs\<rparr>,
      s\<lparr>heap := heap s @ [bs]\<rparr>)"

text \<open>\<open>arr[i]\<close> on a \<open>Uint8Array\<close>: \<open>undefined\<close> (here \<open>None\<close>) out of range.\<close>

definition index_u8 :: "byte list list \<Rightarrow> uint8array \<Rightarrow> nat \<Rightarrow> byte option" where
  "index_u8 h v i = (if i < length (bytes_of h v) then Some (bytes_of h v ! i) else None)"

text \<open>\<open>arr[i] = x\<close> on a \<open>Uint8Array\<close>: ignored out of range.\<close>

definition store_u8 :: "uint8array \<Rightarrow> nat \<Rightarrow> byte \<Rightarrow> module_state \<Rightarrow> module_state" where
  "store_u8 v i x s =
     (if i < byteLength v \<and> array_buffer v < length (heap s)
      then s\<lparr>heap := (heap s)[array_buffer v :=
                (heap s ! array_buffer v)[byteOffset v + i := x]]\<rparr>
      else s)"

text \<open>A sequence of such assignments, each given as array, index and value.\<close>

fun stores :: "(uint8array \<times> nat \<times> byte) list \<Rightarrow> module_state \<Rightarrow> module_state" where
  "stores [] s = s"
| "stores ((v, i, x) # ws) s = stores ws (store_u8 v i x s)"

subsection \<open>The WebAssembly module\<close>

text \<open>The object \<open>parse_crx\<close> returns; the wrapper reads these four properties.\<close>

record crx_info =
  version :: nat
  public_key :: "byte list"
  signature :: "byte list"
  zip_offset :: nat

text \<open>
  Modelled from the spec: the module as the wrapper sees it at one call (its code is
  missing): whether instantiating it succeeds (\<open>None\<close>) or throws, and its two
  exports as functions of the bytes passed in, which return or throw (section 5: "one
  buffer in, one result out"). A module whose answers changed from one call to the
  next is described by one such record for each call.
\<close>

record wasm_module =
  instantiate :: "js_value option"
  parse_crx :: "byte list \<Rightarrow> js_value + crx_info"
  extract_zip_data :: "byte list \<Rightarrow> js_value + byte list"

text \<open>
  Modelled from the spec: the generated loader \<open>../pkg/wasm_crx_parser.js\<close> is
  missing; section 9 says of it "a one-time module-initialization step before parsing
  is available". \<open>initWasm\<close> instantiates the module once; an export called before
  that throws a \<open>TypeError\<close>, whose message text is the engine's.
\<close>

definition initWasm :: "wasm_module \<Rightarrow> module_state \<Rightarrow> unit completion \<times> module_state" where
  "initWasm w s =
     (if wasm_instance s then (Returned (), s)
      else case instantiate w of
             Some e \<Rightarrow> (Threw e, s)
           | None \<Rightarrow> (Returned (), s\<lparr>wasm_instance := True\<rparr>))"

text \<open>
  Modelled from the spec: the value an export of the missing loader throws when the
  module has not been instantiated (section 9: parsing is not available before the
  initialization step).
\<close>

definition not_initialized :: js_value where
  "not_initialized = JsError ''Cannot read properties of undefined''"

text \<open>
  Modelled from the spec: the call \<open>wasm.parse_crx(bytes)\<close> through the missing
  loader. Once the module is instantiated the export runs on the bytes the array
  shows, and what it returns or throws is what the call returns or throws.
\<close>

definition call_parse_crx ::
  "wasm_module \<Rightarrow> uint8array \<Rightarrow> module_state \<Rightarrow> crx_info completion" where
  "call_parse_crx w bytes s =
     (if \<not> wasm_instance s then Threw not_initialized
      else case parse_crx w (bytes_of (heap s) bytes) of
             Inl e \<Rightarrow> Threw e
           | Inr info \<Rightarrow> Returned info)"

text \<open>
  Modelled from the spec: the call \<open>wasm.extract_zip_data(bytes)\<close> through the missing
  loader, likewise; the byte vector it returns arrives as a new \<open>Uint8Array\<close>.
\<close>

definition call_extract_zip_data ::
  "wasm_module \<Rightarrow> uint8array \<Rightarrow> module_state \<Rightarrow> uint8array completion \<times> module_state" where
  "call_extract_zip_data w bytes s =
     (if \<not> wasm_instance s then (Threw not_initialized, s)
      else case extract_zip_data w (bytes_of (heap s) bytes) of
             Inl e \<Rightarrow> (Threw e, s)
           | Inr data \<Rightarrow> (case alloc data s of (zipData, s') \<Rightarrow> (Returned zipData, s')))"

subsection \<open>CrxParser\<close>

text \<open>\<open>static async initialize()\<close>, lines 13 to 16.\<close>

definition initialize :: "wasm_module \<Rightarrow> module_state \<Rightarrow> unit completion \<times> module_state" where
  "initialize w s = initWasm w s"

text \<open>The object \<open>parse\<close> returns, lines 31 to 36.\<close>

record parsed =
  version :: nat
  publicKey :: uint8array
  signature :: uint8array
  zipOffset :: nat

text \<open>
  \<open>static async parse(buffer)\<close>, lines 24 to 37. The properties \<open>public_key\<close> and
  \<open>signature\<close> of the module's result are byte arrays, and \<open>new Uint8Array(x)\<close> on a
  typed array \<open>x\<close> copies its elements into new storage.
\<close>

definition parse ::
  "wasm_module \<Rightarrow> array_buffer \<Rightarrow> module_state \<Rightarrow> parsed completion \<times> module_state" where
  "parse w buffer s =
     (case initialize w s of
        (Threw e, s1) \<Rightarrow> (Threw e, s1)
      | (Returned _, s1) \<Rightarrow>
          (let bytes = new_Uint8Array buffer s1 in
           case call_parse_crx w bytes s1 of
             Threw e \<Rightarrow> (Threw e, s1)
           | Returned crxInfo \<Rightarrow>
               (case alloc (public_key crxInfo) s1 of (pk, s2) \<Rightarrow>
                case alloc (crx_info.signature crxInfo) s2 of (sg, s3) \<Rightarrow>
                  (Returned \<lparr>version = crx_info.version crxInfo, publicKey = pk,
                             signature = sg, zipOffset = zip_offset crxInfo\<rparr>, s3))))"

text \<open>The test of line 53: \<open>zipData[0] === 0x50 && zipData[1] === 0x4B\<close>.\<close>

definition pk_signature :: "byte list list \<Rightarrow> uint8array \<Rightarrow> bool" where
  "pk_signature h zipData \<longleftrightarrow>
     index_u8 h zipData 0 = Some 0x50 \<and> index_u8 h zipData 1 = Some 0x4B"

definition missing_signature :: js_value where
  "missing_signature = JsError ''Extracted data is not a valid ZIP file (missing signature)''"

text \<open>
  \<open>static extractZip(buffer)\<close>, lines 44 to 66. Whatever is thrown inside the
  \<open>try\<close> block is caught, logged and thrown again unchanged.
\<close>

definition extractZip ::
  "wasm_module \<Rightarrow> array_buffer \<Rightarrow> module_state \<Rightarrow> uint8array completion \<times> module_state" where
  "extractZip w buffer s =
     (let bytes = new_Uint8Array buffer s in
      case call_extract_zip_data w bytes s of
        (Threw error, s1) \<Rightarrow> (Threw error, s1)
      | (Returned zipData, s1) \<Rightarrow>
          if \<not> pk_signature (heap s1) zipData then (Threw missing_signature, s1)
          else (Returned zipData, s1))"

text \<open>
  \<open>error.message\<close>: reading a property of \<open>undefined\<close> or \<open>null\<close> throws a
  \<open>TypeError\<close>; a string has no such property; an \<open>Error\<close> object has its message.
\<close>

fun message :: "js_value \<Rightarrow> js_value completion" where
  "message JsUndefined = Threw (JsError ''Cannot read properties of undefined'')"
| "message JsNull = Threw (JsError ''Cannot read properties of null'')"
| "message (JsStr _) = Returned JsUndefined"
| "message (JsError m) = Returned (JsStr m)"

text \<open>The string a value becomes when \<open>+\<close> appends it to a string.\<close>

fun to_string :: "js_value \<Rightarrow> string" where
  "to_string JsUndefined = ''undefined''"
| "to_string JsNull = ''null''"
| "to_string (JsStr s) = s"
| "to_string (JsError m) = ''Error: '' @ m"

text \<open>The \<open>catch\<close> block of \<open>manualExtractZip\<close>, lines 85 to 88.\<close>

definition failed_to_extract :: "js_value \<Rightarrow> js_value" where
  "failed_to_extract error =
     (case message error of
        Threw e \<Rightarrow> e
      | Returned m \<Rightarrow> JsError (''Failed to extract ZIP data: '' @ to_string m))"

text \<open>
  \<open>static manualExtractZip(bytes)\<close>, lines 75 to 89. \<open>bytes.slice(zipOffset)\<close> copies
  the elements from \<open>zipOffset\<close> (clamped to the length) to the end into new storage.
\<close>

definition manualExtractZip ::
  "wasm_module \<Rightarrow> uint8array \<Rightarrow> module_state \<Rightarrow> uint8array completion \<times> module_state" where
  "manualExtractZip w bytes s =
     (case call_parse_crx w bytes s of
        Threw error \<Rightarrow> (Threw (failed_to_extract error), s)
      | Returned crxInfo \<Rightarrow>
          (let zipOffset = zip_offset crxInfo in
           case alloc (drop zipOffset (bytes_of (heap s) bytes)) s of
             (zipData, s1) \<Rightarrow> (Returned zipData, s1)))"

section \<open>The container parser (specification, sections 3, 4 and 7)\<close>

text \<open>
  The parser behind \<open>parse_crx\<close> and \<open>extract_zip_data\<close> is compiled into the
  WebAssembly module; its source is missing. What follows is written from the
  specification.
\<close>

text \<open>Modelled from the spec: \<open>format_version\<close> of section 3 (the parser's source is
  missing).\<close>

datatype crx_version = CRX2 | CRX3

text \<open>Modelled from the spec: the error taxonomy of section 7 (the parser's source is
  missing).\<close>

datatype crx_error =
    BadMagic
  | UnsupportedVersion nat
  | Truncated
  | LengthMismatch
  | TruncatedRecord
  | OffsetOutOfRange
  | EmptyPayload
  | NotZip

text \<open>Modelled from the spec: \<open>ContainerHeader\<close> of section 3 (the parser's source is
  missing); \<open>header_length\<close> is present for CRX3 only.\<close>

record container_header =
  format_version :: crx_version
  public_keys :: "byte list list"
  signatures :: "byte list list"
  zip_offset :: nat
  header_length :: "nat option"

text \<open>Modelled from the spec: the magic constant of section 4.1, the ASCII characters
  \<open>Cr24\<close> (the parser's source is missing).\<close>

definition magic :: "byte list" where
  "magic = [0x43, 0x72, 0x32, 0x34]"

text \<open>The value of a little-endian byte string.\<close>

fun le_value :: "byte list \<Rightarrow> nat" where
  "le_value [] = 0"
| "le_value (b # bs) = unat b + 256 * le_value bs"

text \<open>
  Modelled from the spec: a 4-byte little-endian field at a given offset (section 6),
  read only when it lies inside the buffer (section 4.1: no component may read past
  the buffer's length). The parser's source is missing.
\<close>

definition read_u32_le :: "byte list \<Rightarrow> nat \<Rightarrow> nat option" where
  "read_u32_le buffer off =
     (if off + 4 \<le> length buffer then Some (le_value (take 4 (drop off buffer))) else None)"

subsection \<open>The nested sub-message decoder (section 4.3)\<close>

text \<open>
  Modelled from the spec: the contract of the decoder of the CRX3 header body,
  \<open>decode(header_bytes) -> (public_keys, signatures) | DecodeError\<close> (section 4.3; the
  decoder's source is missing). The decoder is a parameter of the parser: section 4.3
  names no tag values, no layout for the inside of a proof record and no rule for
  where the record stream ends, so it does not determine the result of a decoder on
  given bytes.
\<close>

type_synonym decoder = "byte list \<Rightarrow> crx_error + (byte list list \<times> byte list list)"

subsection \<open>The container header parser (section 4.1)\<close>

text \<open>Modelled from the spec: the CRX2 path of section 4.1 (the parser's source is
  missing).\<close>

definition parse_crx2 :: "byte list \<Rightarrow> crx_error + container_header" where
  "parse_crx2 buffer =
     (case read_u32_le buffer 8 of
        None \<Rightarrow> Inl Truncated
      | Some key_length \<Rightarrow>
     (case read_u32_le buffer 12 of
        None \<Rightarrow> Inl Truncated
      | Some sig_length \<Rightarrow>
          if length buffer < 16 + key_length + sig_length then Inl Truncated
          else Inr \<lparr>format_version = CRX2,
                    public_keys = [take key_length (drop 16 buffer)],
                    signatures = [take sig_length (drop (16 + key_length) buffer)],
                    zip_offset = 16 + key_length + sig_length,
                    header_length = None\<rparr>))"

text \<open>
  Modelled from the spec: the CRX3 path of section 4.1 (the parser's source is
  missing). The bytes \<open>buffer[12 .. 12+header_length]\<close> are handed to the decoder, and
  what it returns or fails with is passed on. Section 3 asks that the two sequences be
  checked to have the same length and section 7 names no error for that check; it is
  left with the decoder.
\<close>

definition parse_crx3 :: "decoder \<Rightarrow> byte list \<Rightarrow> crx_error + container_header" where
  "parse_crx3 decode buffer =
     (case read_u32_le buffer 8 of
        None \<Rightarrow> Inl Truncated
      | Some hl \<Rightarrow>
          if length buffer < 12 + hl then Inl Truncated
          else case decode (take hl (drop 12 buffer)) of
                 Inl e \<Rightarrow> Inl e
               | Inr (keys, sigs) \<Rightarrow>
                   Inr \<lparr>format_version = CRX3, public_keys = keys, signatures = sigs,
                        zip_offset = 12 + hl, header_length = Some hl\<rparr>)"

text \<open>
  Modelled from the spec: \<open>parse_container\<close> of sections 4.1 and 6 (the parser's
  source is missing). A buffer too short to hold the magic or the version field is
  \<open>Truncated\<close>.
\<close>

definition parse_container :: "decoder \<Rightarrow> byte list \<Rightarrow> crx_error + container_header" where
  "parse_container decode buffer =
     (if length buffer < 4 then Inl Truncated
      else if take 4 buffer \<noteq> magic then Inl BadMagic
      else case read_u32_le buffer 4 of
             None \<Rightarrow> Inl Truncated
           | Some v \<Rightarrow>
               if v = 2 then parse_crx2 buffer
               else if v = 3 then parse_crx3 decode buffer
               else Inl (UnsupportedVersion v))"

subsection \<open>The payload extractor (section 4.2)\<close>

text \<open>
  Modelled from the spec: \<open>extract_payload\<close> of sections 4.2 and 6 (the extractor's
  source is missing). Whether \<open>NotZip\<close> is fatal is the caller's policy; when it is
  not, the slice comes back with the result of the check.
\<close>

definition extract_payload ::
  "bool \<Rightarrow> byte list \<Rightarrow> container_header \<Rightarrow> crx_error + (byte list \<times> bool)" where
  "extract_payload not_zip_fatal buffer header =
     (if length buffer < container_header.zip_offset header then Inl OffsetOutOfRange
      else (let slice = drop (container_header.zip_offset header) buffer in
            if length slice < 2 then Inl EmptyPayload
            else (let looks_like_zip = (slice ! 0 = 0x50 \<and> slice ! 1 = 0x4B) in
                  if \<not> looks_like_zip \<and> not_zip_fatal then Inl NotZip
                  else Inr (slice, looks_like_zip))))"

subsection \<open>The parser as a WebAssembly module\<close>

text \<open>A number in decimal.\<close>

fun digits :: "nat \<Rightarrow> string" where
  "digits n =
     (if n < 10 then [char_of (48 + n)] else digits (n div 10) @ [char_of (48 + n mod 10)])"

text \<open>Modelled from the spec: the names of the error variants in section 7 (the
  parser's source is missing).\<close>

fun error_name :: "crx_error \<Rightarrow> string" where
  "error_name BadMagic = ''BadMagic''"
| "error_name (UnsupportedVersion n) = ''UnsupportedVersion('' @ digits n @ '')''"
| "error_name Truncated = ''Truncated''"
| "error_name LengthMismatch = ''LengthMismatch''"
| "error_name TruncatedRecord = ''TruncatedRecord''"
| "error_name OffsetOutOfRange = ''OffsetOutOfRange''"
| "error_name EmptyPayload = ''EmptyPayload''"
| "error_name NotZip = ''NotZip''"

text \<open>
  Modelled from the spec: how the missing module hands an error to JavaScript. It is
  thrown as an \<open>Error\<close> object whose message names the variant (section 7: distinct,
  matchable variants).
\<close>

definition thrown :: "crx_error \<Rightarrow> js_value" where
  "thrown e = JsError (error_name e)"

text \<open>
  Modelled from the spec: how the missing module hands a header to JavaScript. The
  object has one key and one signature, the first of each sequence, empty when there
  is none (section 9: "the visible integration always takes index 0").
\<close>

definition crx_info_of :: "container_header \<Rightarrow> crx_info" where
  "crx_info_of h =
     \<lparr>crx_info.version = (case format_version h of CRX2 \<Rightarrow> 2 | CRX3 \<Rightarrow> 3),
      public_key = (case public_keys h of [] \<Rightarrow> [] | k # _ \<Rightarrow> k),
      crx_info.signature = (case signatures h of [] \<Rightarrow> [] | g # _ \<Rightarrow> g),
      crx_info.zip_offset = container_header.zip_offset h\<rparr>"

text \<open>
  Modelled from the spec: the missing module, with \<open>parse_crx\<close> as \<open>parse_container\<close>
  and \<open>extract_zip_data\<close> as \<open>parse_container\<close> followed by \<open>extract_payload\<close>
  (section 6). Instantiating it succeeds.
\<close>

definition spec_module :: "decoder \<Rightarrow> bool \<Rightarrow> wasm_module" where
  "spec_module decode not_zip_fatal =
     \<lparr>instantiate = None,
      parse_crx = (\<lambda>bytes.
        case parse_container decode bytes of
          Inl e \<Rightarrow> Inl (thrown e)
        | Inr h \<Rightarrow> Inr (crx_info_of h)),
      extract_zip_data = (\<lambda>bytes.
        case parse_container decode bytes of
          Inl e \<Rightarrow> Inl (thrown e)
        | Inr h \<Rightarrow>
            (case extract_payload not_zip_fatal bytes h of
               Inl e \<Rightarrow> Inl (thrown e)
             | Inr (payload, _) \<Rightarrow> Inr payload))\<rparr>"

text \<open>
  A decoder that finds no proof record in any header body. It stands for the missing
  decoder where an example needs a whole module; the examples below are CRX2 files
  and headers that fail before the decoder is reached.
\<close>

definition no_proofs :: decoder where
  "no_proofs header_bytes = Inr ([], [])"

section \<open>Test buffers\<close>

text \<open>The bytes of an ASCII string.\<close>

definition ascii :: "string \<Rightarrow> byte list" where
  "ascii s = map (\<lambda>c. of_nat (of_char c)) s"

text \<open>
  A 4-byte little-endian field holding \<open>n\<close> (its low 32 bits).
\<close>

definition u32_le :: "nat \<Rightarrow> byte list" where
  "u32_le n =
     [of_nat n, of_nat (n div 256), of_nat (n div 256 div 256), of_nat (n div 256 div 256 div 256)]"

text \<open>
  A CRX2 file built from a key, a signature and the bytes that follow them (the
  synthetic buffer of the round-trip property in section 8 of the specification).
\<close>

definition crx2_file :: "byte list \<Rightarrow> byte list \<Rightarrow> byte list \<Rightarrow> byte list" where
  "crx2_file key sig zip_bytes =
     ascii ''Cr24'' @ u32_le 2 @ u32_le (length key) @ u32_le (length sig) @ key @ sig @ zip_bytes"

text \<open>
  Scenario A of section 8: the magic, version 2, a key length of 3, a signature
  length of 3, the key \<open>key\<close>, the signature \<open>sig\<close> and the ZIP bytes. The section
  writes \<open>u32(2)\<close> for the signature length; the three bytes of \<open>sig\<close>, the offset 22
  and the payload starting with \<open>PK\<close> that it gives are those of a field holding 3.
\<close>

definition scenario_a :: "byte list \<Rightarrow> byte list" where
  "scenario_a zip_bytes =
     ascii ''Cr24'' @ u32_le 2 @ u32_le 3 @ u32_le 3 @ ascii ''key'' @ ascii ''sig'' @ zip_bytes"


text \<open>
  Three files: a CRX2 header with an empty key, an empty signature and nothing after
  them; scenario D of section 8 (a valid header followed by \<open>XY\<close>); and a file
  whose payload begins with the ZIP signature.
\<close>

definition header_only_crx2 :: "byte list" where
  "header_only_crx2 = crx2_file [] [] []"

definition scenario_d :: "byte list" where
  "scenario_d = crx2_file (ascii ''key'') (ascii ''sig'') (ascii ''XY'')"

definition pk_file :: "byte list" where
  "pk_file = crx2_file (ascii ''key'') (ascii ''sig'') [0x50, 0x4B, 3, 4]"

text \<open>
  A module whose extractor returns the bytes from \<open>zip_offset\<close> on without any of
  the checks of section 4.2; the test of line 53 of \<open>index.js\<close> is what stands between
  such a module and the caller.
\<close>

definition unchecked_module :: "decoder \<Rightarrow> wasm_module" where
  "unchecked_module decode =
     (spec_module decode True)
       \<lparr>extract_zip_data := (\<lambda>bytes.
          case parse_container decode bytes of
            Inl e \<Rightarrow> Inl (thrown e)
          | Inr h \<Rightarrow> Inr (drop (container_header.zip_offset h) bytes))\<rparr>"

text \<open>
  The state after \<open>index.js\<close> has been loaded over a store and \<open>initialize()\<close> has
  run.
\<close>

definition loaded :: "wasm_module \<Rightarrow> byte list list \<Rightarrow> module_state" where
  "loaded w h = snd (initialize w (fresh_module h))"

text \<open>
  What a caller can observe of the completion of \<open>parse\<close>: the two numbers and the
  bytes the two arrays show in a given store, or the thrown value.
\<close>

fun parsed_value ::
  "byte list list \<Rightarrow> parsed completion \<Rightarrow> (nat \<times> byte list \<times> byte list \<times> nat) completion" where
  "parsed_value h (Returned r) =
     Returned (version r, bytes_of h (publicKey r), bytes_of h (signature r), zipOffset r)"
| "parsed_value h (Threw e) = Threw e"

section \<open>Properties of the building blocks\<close>

subsection \<open>Little-endian fields and the CRX2 layout\<close>

lemma magic_ascii: "magic = ascii ''Cr24''"
  by code_simp

lemma le_value_u32_le: "le_value (u32_le n) = n mod 2 ^ 32"
proof -
  have step: "m mod 256 + 256 * (m div 256 mod k) = m mod (256 * k)" for m k :: nat
    by (simp add: mod_mult2_eq)
  have "le_value (u32_le n) =
          n mod 256 + 256 * (n div 256 mod 256 +
            256 * (n div 256 div 256 mod 256 + 256 * (n div 256 div 256 div 256 mod 256)))"
    by (simp add: u32_le_def unat_of_nat)
  also have "\<dots> = n mod 256 + 256 * (n div 256 mod 256 +
            256 * (n div 256 div 256 mod (256 * 256)))"
    by (simp only: step)
  also have "\<dots> = n mod 256 + 256 * (n div 256 mod (256 * (256 * 256)))"
    by (simp only: step)
  also have "\<dots> = n mod (256 * (256 * (256 * 256)))"
    by (simp only: step)
  finally show ?thesis by simp
qed

lemma length_u32_le [simp]: "length (u32_le n) = 4"
  by (simp add: u32_le_def)

lemma parse_crx2_ok:
  assumes "take 4 buffer = magic"
    and "le_value (take 4 (drop 4 buffer)) = 2"
    and "key_length = le_value (take 4 (drop 8 buffer))"
    and "sig_length = le_value (take 4 (drop 12 buffer))"
    and "16 + key_length + sig_length \<le> length buffer"
  shows "parse_container p buffer =
     Inr \<lparr>format_version = CRX2,
          public_keys = [take key_length (drop 16 buffer)],
          signatures = [take sig_length (drop (16 + key_length) buffer)],
          zip_offset = 16 + key_length + sig_length,
          header_length = None\<rparr>"
  using assms by (simp add: parse_container_def read_u32_le_def parse_crx2_def)

lemma crx2_file_parse:
  assumes "length key < 2 ^ 32" and "length sig < 2 ^ 32"
  shows "parse_container p (crx2_file key sig z) =
     Inr \<lparr>format_version = CRX2, public_keys = [key], signatures = [sig],
          zip_offset = 16 + length key + length sig, header_length = None\<rparr>"
proof -
  let ?b = "crx2_file key sig z"
  have bytes: "?b = [0x43, 0x72, 0x32, 0x34] @ u32_le 2 @ u32_le (length key) @
                 u32_le (length sig) @ key @ sig @ z"
    by (simp add: crx2_file_def ascii_def)
  have 1: "take 4 ?b = magic" by (simp add: bytes magic_def)
  have 2: "le_value (take 4 (drop 4 ?b)) = 2" by (simp add: bytes le_value_u32_le)
  have 3: "length key = le_value (take 4 (drop 8 ?b))"
    using assms by (simp add: bytes le_value_u32_le)
  have 4: "length sig = le_value (take 4 (drop 12 ?b))"
    using assms by (simp add: bytes le_value_u32_le)
  have 5: "16 + length key + length sig \<le> length ?b" by (simp add: bytes)
  define pre where "pre = [0x43, 0x72, 0x32, 0x34] @ u32_le 2 @ u32_le (length key) @
                 u32_le (length sig)"
  have lp: "length pre = 16" by (simp add: pre_def)
  have split: "?b = pre @ key @ sig @ z" by (simp add: bytes pre_def)
  have 6: "take (length key) (drop 16 ?b) = key"
    unfolding split by (simp add: lp)
  have 7: "take (length sig) (drop (16 + length key) ?b) = sig"
    unfolding split by (simp add: lp)
  show ?thesis
    using parse_crx2_ok [OF 1 2 3 4 5, of p] by (simp only: 6 7)
qed

lemma crx2_file_drop:
  "drop (16 + length key + length sig) (crx2_file key sig z) = z"
proof -
  define pre where "pre = ascii ''Cr24'' @ u32_le 2 @ u32_le (length key) @ u32_le (length sig)"
  have lp: "length pre = 16" by (simp add: pre_def ascii_def)
  have "crx2_file key sig z = pre @ key @ sig @ z" by (simp add: crx2_file_def pre_def)
  then show ?thesis by (simp add: lp)
qed

lemma scenario_a_crx2_file:
  "scenario_a z = crx2_file (ascii ''key'') (ascii ''sig'') z"
proof -
  have "length (ascii ''key'') = 3" and "length (ascii ''sig'') = 3"
    by (simp_all add: ascii_def)
  then show ?thesis
    by (simp only: scenario_a_def crx2_file_def)
qed

lemma scenario_a_parse:
  "parse_container d (scenario_a z) =
     Inr \<lparr>format_version = CRX2, public_keys = [ascii ''key''], signatures = [ascii ''sig''],
          zip_offset = 22, header_length = None\<rparr>"
proof -
  have k: "length (ascii ''key'') = 3" and g: "length (ascii ''sig'') = 3"
    by (simp_all add: ascii_def)
  have "length (ascii ''key'') < 2 ^ 32" and "length (ascii ''sig'') < 2 ^ 32"
    by (simp_all only: k g) simp_all
  then show ?thesis
    by (simp only: scenario_a_crx2_file crx2_file_parse k g) simp
qed

subsection \<open>The names of the errors\<close>











subsection \<open>The wrapper functions in closed form\<close>

lemma bytes_of_new_Uint8Array:
  "bytes_of (heap s) (new_Uint8Array a s) = contents (heap s) a"
  by (simp add: bytes_of_def new_Uint8Array_def)

lemma bytes_of_fresh:
  "n = length bs \<Longrightarrow>
   bytes_of (h @ [bs]) \<lparr>array_buffer = length h, byteOffset = 0, byteLength = n\<rparr> = bs"
  by (simp add: bytes_of_def contents_def)

lemma pk_signature_iff:
  "pk_signature h z \<longleftrightarrow> take 2 (bytes_of h z) = [0x50, 0x4B]"
proof (cases "bytes_of h z")
  case Nil
  then show ?thesis by (simp add: pk_signature_def index_u8_def)
next
  case (Cons a as)
  then show ?thesis
    by (cases as) (auto simp: pk_signature_def index_u8_def)
qed

lemma extractZip_eq:
  "extractZip w buffer s =
     (if \<not> wasm_instance s then (Threw not_initialized, s)
      else case extract_zip_data w (contents (heap s) buffer) of
             Inl e \<Rightarrow> (Threw e, s)
           | Inr payload \<Rightarrow>
               if take 2 payload = [0x50, 0x4B]
               then (Returned \<lparr>array_buffer = length (heap s), byteOffset = 0,
                                byteLength = length payload\<rparr>,
                     s\<lparr>heap := heap s @ [payload]\<rparr>)
               else (Threw missing_signature, s\<lparr>heap := heap s @ [payload]\<rparr>))"
  by (simp add: extractZip_def call_extract_zip_data_def bytes_of_new_Uint8Array alloc_def
      pk_signature_iff bytes_of_fresh split: sum.splits)

lemma manualExtractZip_eq:
  "manualExtractZip w bytes s =
     (if \<not> wasm_instance s then (Threw (failed_to_extract not_initialized), s)
      else case parse_crx w (bytes_of (heap s) bytes) of
             Inl e \<Rightarrow> (Threw (failed_to_extract e), s)
           | Inr info \<Rightarrow>
               (Returned \<lparr>array_buffer = length (heap s), byteOffset = 0,
                  byteLength = length (bytes_of (heap s) bytes) - crx_info.zip_offset info\<rparr>,
                s\<lparr>heap := heap s @ [drop (crx_info.zip_offset info) (bytes_of (heap s) bytes)]\<rparr>))"
  by (simp add: manualExtractZip_def call_parse_crx_def alloc_def Let_def split: sum.splits)

lemma initialize_eq:
  "initialize w s =
     (if wasm_instance s then (Returned (), s)
      else case instantiate w of
             Some e \<Rightarrow> (Threw e, s)
           | None \<Rightarrow> (Returned (), s\<lparr>wasm_instance := True\<rparr>))"
  by (simp add: initialize_def initWasm_def)

lemma parse_eq:
  "parse w buffer s =
     (case (if wasm_instance s then None else instantiate w) of
        Some e \<Rightarrow> (Threw e, s)
      | None \<Rightarrow>
          (case parse_crx w (contents (heap s) buffer) of
             Inl e \<Rightarrow> (Threw e, s\<lparr>wasm_instance := True\<rparr>)
           | Inr info \<Rightarrow>
               (Returned \<lparr>version = crx_info.version info,
                   publicKey = \<lparr>array_buffer = length (heap s), byteOffset = 0,
                                 byteLength = length (public_key info)\<rparr>,
                   signature = \<lparr>array_buffer = Suc (length (heap s)), byteOffset = 0,
                                 byteLength = length (crx_info.signature info)\<rparr>,
                   zipOffset = crx_info.zip_offset info\<rparr>,
                s\<lparr>wasm_instance := True,
                  heap := heap s @ [public_key info, crx_info.signature info]\<rparr>)))"
  by (auto simp: parse_def initialize_eq call_parse_crx_def bytes_of_new_Uint8Array alloc_def
      new_Uint8Array_def bytes_of_def
      split: sum.splits option.splits)

lemma contents_store_u8_other:
  "a \<noteq> array_buffer v \<Longrightarrow> contents (heap (store_u8 v i x s)) a = contents (heap s) a"
  by (simp add: store_u8_def contents_def)

lemma bytes_of_store_u8_other:
  "array_buffer v' \<noteq> array_buffer v \<Longrightarrow>
   bytes_of (heap (store_u8 v i x s)) v' = bytes_of (heap s) v'"
  by (simp add: bytes_of_def contents_store_u8_other)

lemma contents_stores_other:
  "\<forall>(v, i, x) \<in> set ws. array_buffer v \<noteq> a \<Longrightarrow>
   contents (heap (stores ws s)) a = contents (heap s) a"
proof (induction ws arbitrary: s)
  case Nil
  show ?case by simp
next
  case (Cons w ws)
  obtain v i x where w: "w = (v, i, x)" by (cases w) auto
  from Cons.prems w have "array_buffer v \<noteq> a" and rest: "\<forall>(v, i, x) \<in> set ws. array_buffer v \<noteq> a"
    by auto
  then show ?case
    by (simp add: w Cons.IH [OF rest] contents_store_u8_other)
qed

lemma bytes_of_stores_other:
  "\<forall>(v, i, x) \<in> set ws. array_buffer v \<noteq> array_buffer v' \<Longrightarrow>
   bytes_of (heap (stores ws s)) v' = bytes_of (heap s) v'"
  by (simp add: bytes_of_def contents_stores_other)

lemma parse_returned:
  "parse w buffer s = (Returned r, s1) \<Longrightarrow>
   array_buffer (publicKey r) = length (heap s) \<and>
   array_buffer (signature r) = Suc (length (heap s))"
  by (auto simp: parse_eq split: option.splits sum.splits)

lemma manualExtractZip_returned:
  "manualExtractZip w bytes s = (Returned zipData, s1) \<Longrightarrow> array_buffer zipData = length (heap s)"
  by (auto simp: manualExtractZip_eq split: if_splits sum.splits)




lemma parse_crx2_file:
  assumes "contents (heap s) buffer = crx2_file key sig z"
    and "length key < 2 ^ 32" and "length sig < 2 ^ 32"
  shows "parsed_value (heap (snd (parse (spec_module d f) buffer s)))
           (fst (parse (spec_module d f) buffer s)) =
         Returned (2, key, sig, 16 + length key + length sig)"
proof -
  have i: "instantiate (spec_module d f) = None" by (simp add: spec_module_def)
  have p: "parse_crx (spec_module d f) (contents (heap s) buffer) =
             Inr \<lparr>crx_info.version = 2, public_key = key, crx_info.signature = sig,
                  crx_info.zip_offset = 16 + length key + length sig\<rparr>"
    by (simp add: spec_module_def assms(1) crx2_file_parse [OF assms(2,3)] crx_info_of_def)
  have "parse (spec_module d f) buffer s =
          (Returned \<lparr>version = 2,
              publicKey = \<lparr>array_buffer = length (heap s), byteOffset = 0,
                            byteLength = length key\<rparr>,
              signature = \<lparr>array_buffer = Suc (length (heap s)), byteOffset = 0,
                            byteLength = length sig\<rparr>,
              zipOffset = 16 + length key + length sig\<rparr>,
           s\<lparr>wasm_instance := True, heap := heap s @ [key, sig]\<rparr>)"
    by (simp add: parse_eq i p)
  then show ?thesis
    by (simp add: bytes_of_def contents_def nth_append)
qed

section \<open>The claims\<close>

subsection \<open>C1: the convenience extraction path\<close>

text \<open>
  C1 (amended). \<open>CrxParser.manualExtractZip\<close> makes no bounds check of its own. Once
  the module is initialized, whenever \<open>parse_crx\<close> returns, it returns a new array
  holding the bytes of its argument from \<open>zip_offset\<close> to the end, whatever their
  number (\<open>slice\<close> clamps an offset beyond the end, giving the empty array); it fails
  only when \<open>parse_crx\<close> throws, and then with the error built in its \<open>catch\<close> block.
\<close>

theorem manualExtractZip_slices:
  assumes "wasm_instance s"
  shows "(\<forall>info. parse_crx w (bytes_of (heap s) bytes) = Inr info \<longrightarrow>
            (\<exists>zipData s1. manualExtractZip w bytes s = (Returned zipData, s1) \<and>
               bytes_of (heap s1) zipData =
                 drop (crx_info.zip_offset info) (bytes_of (heap s) bytes))) \<and>
         (\<forall>e. parse_crx w (bytes_of (heap s) bytes) = Inl e \<longrightarrow>
            manualExtractZip w bytes s = (Threw (failed_to_extract e), s))"
  using assms by (simp add: manualExtractZip_eq bytes_of_fresh)

text \<open>
  C1, witness: on a CRX2 header with nothing after it the call returns an empty
  array; on a 3-byte buffer the parser's \<open>Truncated\<close> comes back wrapped.
\<close>

theorem manualExtractZip_slices_witness:
  "wasm_instance (loaded (spec_module no_proofs True) [header_only_crx2]) \<and>
   (\<exists>zipData s1.
      manualExtractZip (spec_module no_proofs True)
        (new_Uint8Array 0 (loaded (spec_module no_proofs True) [header_only_crx2]))
        (loaded (spec_module no_proofs True) [header_only_crx2]) = (Returned zipData, s1) \<and>
      bytes_of (heap s1) zipData = []) \<and>
   manualExtractZip (spec_module no_proofs True)
        (new_Uint8Array 0 (loaded (spec_module no_proofs True) [ascii ''Cr2'']))
        (loaded (spec_module no_proofs True) [ascii ''Cr2''])
     = (Threw (JsError ''Failed to extract ZIP data: Truncated''),
        loaded (spec_module no_proofs True) [ascii ''Cr2''])"
proof -
  let ?w = "spec_module no_proofs True"
  let ?s = "loaded ?w [header_only_crx2]"
  let ?t = "loaded ?w [ascii ''Cr2'']"
  have a: "wasm_instance ?s" by code_simp
  have b: "parse_crx ?w (bytes_of (heap ?s) (new_Uint8Array 0 ?s)) =
             Inr \<lparr>crx_info.version = 2, public_key = [], crx_info.signature = [],
                  crx_info.zip_offset = 16\<rparr>"
    by code_simp
  have c: "drop 16 (bytes_of (heap ?s) (new_Uint8Array 0 ?s)) = []" by code_simp
  have d: "wasm_instance ?t" by code_simp
  have e: "parse_crx ?w (bytes_of (heap ?t) (new_Uint8Array 0 ?t)) = Inl (JsError ''Truncated'')"
    by code_simp
  have f: "failed_to_extract (JsError ''Truncated'') = JsError ''Failed to extract ZIP data: Truncated''"
    by code_simp
  from manualExtractZip_slices [OF a, of ?w "new_Uint8Array 0 ?s"] b c
  have 1: "\<exists>zipData s1. manualExtractZip ?w (new_Uint8Array 0 ?s) ?s = (Returned zipData, s1) \<and>
      bytes_of (heap s1) zipData = []"
    by simp
  from manualExtractZip_slices [OF d, of ?w "new_Uint8Array 0 ?t"] e f
  have 2: "manualExtractZip ?w (new_Uint8Array 0 ?t) ?t =
     (Threw (JsError ''Failed to extract ZIP data: Truncated''), ?t)"
    by simp
  from a 1 2 show ?thesis by blast
qed

text \<open>
  C1, counterexample: for the header-only file the remaining slice is shorter than
  2 bytes, and \<open>manualExtractZip\<close> returns an empty array instead of failing with
  \<open>EmptyPayload\<close>.
\<close>

theorem manualExtractZip_empty_payload_counterexample:
  "length (drop 16 header_only_crx2) < 2 \<and>
   fst (manualExtractZip (spec_module no_proofs True)
          (new_Uint8Array 0 (loaded (spec_module no_proofs True) [header_only_crx2]))
          (loaded (spec_module no_proofs True) [header_only_crx2]))
   = Returned \<lparr>array_buffer = 1, byteOffset = 0, byteLength = 0\<rparr>"
  by code_simp

subsection \<open>C2: the ZIP signature check of extractZip\<close>

text \<open>
  C2. For every module and buffer, once the module has extracted a payload,
  \<open>CrxParser.extractZip\<close> tests its first two bytes against 0x50 and 0x4B: when they
  differ the call throws the missing-signature error and returns nothing; when they
  match it returns the payload.
\<close>

theorem extractZip_checks_signature:
  assumes "wasm_instance s"
    and "extract_zip_data w (contents (heap s) buffer) = Inr payload"
  shows "(take 2 payload \<noteq> [0x50, 0x4B] \<longrightarrow>
            fst (extractZip w buffer s) = Threw missing_signature) \<and>
         (take 2 payload = [0x50, 0x4B] \<longrightarrow>
            (\<exists>zipData s1. extractZip w buffer s = (Returned zipData, s1) \<and>
               bytes_of (heap s1) zipData = payload))"
  using assms by (simp add: extractZip_eq bytes_of_fresh)

text \<open>
  C2, witness: scenario D (payload \<open>XY\<close>) with a module that leaves the signature
  to its caller, and a file whose payload begins with \<open>PK\<close>.
\<close>

theorem extractZip_checks_signature_witness:
  "fst (extractZip (spec_module no_proofs False) 0 (loaded (spec_module no_proofs False) [scenario_d]))
     = Threw (JsError ''Extracted data is not a valid ZIP file (missing signature)'') \<and>
   (\<exists>zipData s1.
      extractZip (spec_module no_proofs False) 0 (loaded (spec_module no_proofs False) [pk_file])
        = (Returned zipData, s1) \<and>
      bytes_of (heap s1) zipData = [0x50, 0x4B, 3, 4])"
proof -
  let ?w = "spec_module no_proofs False"
  let ?s = "loaded ?w [scenario_d]"
  let ?t = "loaded ?w [pk_file]"
  have a: "wasm_instance ?s" by code_simp
  have b: "extract_zip_data ?w (contents (heap ?s) 0) = Inr (ascii ''XY'')" by code_simp
  have c: "take 2 (ascii ''XY'') \<noteq> [0x50, 0x4B]" by code_simp
  have d: "wasm_instance ?t" by code_simp
  have e: "extract_zip_data ?w (contents (heap ?t) 0) = Inr [0x50, 0x4B, 3, 4]" by code_simp
  from extractZip_checks_signature [OF a b] c
  have 1: "fst (extractZip ?w 0 ?s) = Threw missing_signature" by blast
  from extractZip_checks_signature [OF d e]
  have 2: "\<exists>zipData s1. extractZip ?w 0 ?t = (Returned zipData, s1) \<and>
             bytes_of (heap s1) zipData = [0x50, 0x4B, 3, 4]"
    by simp
  from 1 2 show ?thesis by (simp add: missing_signature_def)
qed

subsection \<open>C4: the CRX2 layout\<close>

text \<open>
  C4. For every valid CRX2 buffer, \<open>parse_container\<close> returns
  \<open>zip_offset = 16 + key_length + sig_length\<close>, the single key
  \<open>buffer[16 .. 16+key_length]\<close> and the single signature
  \<open>buffer[16+key_length .. 16+key_length+sig_length]\<close>. For the buffer of scenario A
  followed by any ZIP bytes that is version CRX2, the key \<open>key\<close>, the signature \<open>sig\<close>
  and \<open>zip_offset = 22\<close>, and the bytes from offset 22 on are the ZIP bytes. A buffer
  built from a key, a signature and a payload parses back to that key, that signature
  and the offset of the payload; and through \<open>CrxParser.parse\<close> its caller sees version
  2, arrays showing the key and the signature, and that offset.
\<close>

theorem crx2_layout:
  "(\<forall>buffer key_length sig_length.
      take 4 buffer = magic \<and> le_value (take 4 (drop 4 buffer)) = 2 \<and>
      key_length = le_value (take 4 (drop 8 buffer)) \<and>
      sig_length = le_value (take 4 (drop 12 buffer)) \<and>
      16 + key_length + sig_length \<le> length buffer \<longrightarrow>
      parse_container d buffer =
        Inr \<lparr>format_version = CRX2,
             public_keys = [take key_length (drop 16 buffer)],
             signatures = [take sig_length (drop (16 + key_length) buffer)],
             zip_offset = 16 + key_length + sig_length,
             header_length = None\<rparr>) \<and>
   (\<forall>zip_bytes.
      parse_container d (scenario_a zip_bytes) =
        Inr \<lparr>format_version = CRX2, public_keys = [ascii ''key''], signatures = [ascii ''sig''],
             zip_offset = 22, header_length = None\<rparr> \<and>
      drop 22 (scenario_a zip_bytes) = zip_bytes) \<and>
   (\<forall>key sig zip_bytes.
      length key < 2 ^ 32 \<and> length sig < 2 ^ 32 \<longrightarrow>
      parse_container d (crx2_file key sig zip_bytes) =
        Inr \<lparr>format_version = CRX2, public_keys = [key], signatures = [sig],
             zip_offset = 16 + length key + length sig, header_length = None\<rparr> \<and>
      drop (16 + length key + length sig) (crx2_file key sig zip_bytes) = zip_bytes) \<and>
   (\<forall>s buffer key sig zip_bytes not_zip_fatal.
      contents (heap s) buffer = crx2_file key sig zip_bytes \<and>
      length key < 2 ^ 32 \<and> length sig < 2 ^ 32 \<longrightarrow>
      parsed_value (heap (snd (parse (spec_module d not_zip_fatal) buffer s)))
        (fst (parse (spec_module d not_zip_fatal) buffer s)) =
      Returned (2, key, sig, 16 + length key + length sig))"
proof -
  have "drop 22 (scenario_a z) = z" for z
    using crx2_file_drop [of "ascii ''key''" "ascii ''sig''" z]
    by (simp add: scenario_a_crx2_file ascii_def)
  then show ?thesis
    using parse_crx2_ok [of _ _ _ d] scenario_a_parse [of d] crx2_file_parse [of _ _ d]
      crx2_file_drop parse_crx2_file [of _ _ _ _ _ d]
    by blast
qed

text \<open>
  C4, witness: scenario A followed by \<open>PK 03 04\<close>; a buffer given byte by byte
  with a key of 1 byte and a signature of 2; the same file built from its parts; and
  scenario A through \<open>CrxParser.parse\<close>.
\<close>

theorem crx2_layout_witness:
  "parse_container no_proofs (scenario_a [0x50, 0x4B, 3, 4]) =
     Inr \<lparr>format_version = CRX2, public_keys = [ascii ''key''], signatures = [ascii ''sig''],
          zip_offset = 22, header_length = None\<rparr> \<and>
   drop 22 (scenario_a [0x50, 0x4B, 3, 4]) = [0x50, 0x4B, 3, 4] \<and>
   parse_container no_proofs
       (ascii ''Cr24'' @ [2, 0, 0, 0, 1, 0, 0, 0, 2, 0, 0, 0, 0xAA, 0xBB, 0xCC, 0x50, 0x4B]) =
     Inr \<lparr>format_version = CRX2, public_keys = [[0xAA]], signatures = [[0xBB, 0xCC]],
          zip_offset = 19, header_length = None\<rparr> \<and>
   parse_container no_proofs (crx2_file [0xAA] [0xBB, 0xCC] [0x50, 0x4B]) =
     Inr \<lparr>format_version = CRX2, public_keys = [[0xAA]], signatures = [[0xBB, 0xCC]],
          zip_offset = 19, header_length = None\<rparr> \<and>
   parsed_value
     (heap (snd (parse (spec_module no_proofs True) 0 (fresh_module [scenario_a [0x50, 0x4B, 3, 4]]))))
     (fst (parse (spec_module no_proofs True) 0 (fresh_module [scenario_a [0x50, 0x4B, 3, 4]]))) =
     Returned (2, ascii ''key'', ascii ''sig'', 22)"
proof -
  let ?z = "[0x50, 0x4B, 3, 4] :: byte list"
  let ?b = "ascii ''Cr24'' @
            [2, 0, 0, 0, 1, 0, 0, 0, 2, 0, 0, 0, 0xAA, 0xBB, 0xCC, 0x50, 0x4B :: byte]"
  let ?s = "fresh_module [scenario_a ?z]"
  note layout = crx2_layout [of no_proofs]
  from layout
  have 1: "parse_container no_proofs (scenario_a ?z) =
     Inr \<lparr>format_version = CRX2, public_keys = [ascii ''key''], signatures = [ascii ''sig''],
          zip_offset = 22, header_length = None\<rparr> \<and>
     drop 22 (scenario_a ?z) = ?z"
    by blast
  have a: "take 4 ?b = magic \<and> le_value (take 4 (drop 4 ?b)) = 2 \<and>
           1 = le_value (take 4 (drop 8 ?b)) \<and> 2 = le_value (take 4 (drop 12 ?b)) \<and>
           16 + 1 + 2 \<le> length ?b"
    by code_simp
  have b: "take 1 (drop 16 ?b) = [0xAA]" "take 2 (drop (16 + 1) ?b) = [0xBB, 0xCC]"
    by code_simp+
  from layout a
  have "parse_container no_proofs ?b =
     Inr \<lparr>format_version = CRX2, public_keys = [take 1 (drop 16 ?b)],
          signatures = [take 2 (drop (16 + 1) ?b)], zip_offset = 16 + 1 + 2,
          header_length = None\<rparr>"
    by blast
  then have 2: "parse_container no_proofs ?b =
     Inr \<lparr>format_version = CRX2, public_keys = [[0xAA]], signatures = [[0xBB, 0xCC]],
          zip_offset = 19, header_length = None\<rparr>"
    by (simp only: b) simp
  have c: "length [0xAA :: byte] < 2 ^ 32 \<and> length [0xBB, 0xCC :: byte] < 2 ^ 32"
    by simp
  from layout c
  have "parse_container no_proofs (crx2_file [0xAA] [0xBB, 0xCC] [0x50, 0x4B]) =
     Inr \<lparr>format_version = CRX2, public_keys = [[0xAA]], signatures = [[0xBB, 0xCC]],
          zip_offset = 16 + length [0xAA :: byte] + length [0xBB, 0xCC :: byte],
          header_length = None\<rparr>"
    by blast
  then have 3: "parse_container no_proofs (crx2_file [0xAA] [0xBB, 0xCC] [0x50, 0x4B]) =
     Inr \<lparr>format_version = CRX2, public_keys = [[0xAA]], signatures = [[0xBB, 0xCC]],
          zip_offset = 19, header_length = None\<rparr>"
    by simp
  have k: "length (ascii ''key'') = 3" and g: "length (ascii ''sig'') = 3"
    by (simp_all add: ascii_def)
  have d: "contents (heap ?s) 0 = crx2_file (ascii ''key'') (ascii ''sig'') ?z \<and>
           length (ascii ''key'') < 2 ^ 32 \<and> length (ascii ''sig'') < 2 ^ 32"
    by (simp add: k g fresh_module_def contents_def scenario_a_crx2_file)
  from layout d
  have "parsed_value (heap (snd (parse (spec_module no_proofs True) 0 ?s)))
          (fst (parse (spec_module no_proofs True) 0 ?s)) =
        Returned (2, ascii ''key'', ascii ''sig'',
                  16 + length (ascii ''key'') + length (ascii ''sig''))"
    by blast
  then have 4: "parsed_value (heap (snd (parse (spec_module no_proofs True) 0 ?s)))
          (fst (parse (spec_module no_proofs True) 0 ?s)) =
        Returned (2, ascii ''key'', ascii ''sig'', 22)"
    by (simp only: k g) simp
  from 1 2 3 4 show ?thesis by blast
qed

subsection \<open>C5: reads stay inside the buffer\<close>



subsection \<open>C6: how failures reach the caller\<close>




subsection \<open>C7: parsing keeps no state\<close>




subsection \<open>C8: what extractZip returns\<close>

text \<open>
  C8. Whenever \<open>CrxParser.extractZip\<close> returns, the returned array has at least 2
  bytes and begins with 0x50 0x4B. A payload shorter than 2 bytes fails the test of
  line 53 like a payload with other first bytes does, and both are rejected with the
  same thrown error.
\<close>

theorem extractZip_returns_zip:
  "(\<forall>zipData s1. extractZip w buffer s = (Returned zipData, s1) \<longrightarrow>
      2 \<le> byteLength zipData \<and> 2 \<le> length (bytes_of (heap s1) zipData) \<and>
      bytes_of (heap s1) zipData ! 0 = 0x50 \<and> bytes_of (heap s1) zipData ! 1 = 0x4B) \<and>
   (\<forall>payload. wasm_instance s \<and> extract_zip_data w (contents (heap s) buffer) = Inr payload \<and>
      (length payload < 2 \<or> payload ! 0 \<noteq> 0x50 \<or> payload ! 1 \<noteq> 0x4B) \<longrightarrow>
      fst (extractZip w buffer s) = Threw missing_signature)"
proof -
  have pk: "take 2 p = [0x50, 0x4B] \<longleftrightarrow> 2 \<le> length p \<and> p ! 0 = 0x50 \<and> p ! 1 = 0x4B"
    for p :: "byte list"
  proof (cases p)
    case Nil
    then show ?thesis by simp
  next
    case (Cons a as)
    then show ?thesis by (cases as) auto
  qed
  show ?thesis
    by (auto simp: extractZip_eq bytes_of_fresh pk split: sum.splits if_splits)
qed

text \<open>
  C8, witness: a file whose payload is the 4 bytes \<open>PK 03 04\<close>, and one whose
  payload is the single byte 0x50.
\<close>

theorem extractZip_returns_zip_witness:
  "extractZip (spec_module no_proofs False) 0 (loaded (spec_module no_proofs False) [pk_file])
     = (Returned \<lparr>array_buffer = 1, byteOffset = 0, byteLength = 4\<rparr>,
        (loaded (spec_module no_proofs False) [pk_file])
          \<lparr>heap := [pk_file, [0x50, 0x4B, 3, 4]]\<rparr>) \<and>
   bytes_of [pk_file, [0x50, 0x4B, 3, 4]] \<lparr>array_buffer = 1, byteOffset = 0, byteLength = 4\<rparr> ! 0 = 0x50 \<and>
   bytes_of [pk_file, [0x50, 0x4B, 3, 4]] \<lparr>array_buffer = 1, byteOffset = 0, byteLength = 4\<rparr> ! 1 = 0x4B \<and>
   extract_zip_data (unchecked_module no_proofs)
     (contents (heap (loaded (unchecked_module no_proofs) [crx2_file [] [] [0x50]])) 0) = Inr [0x50] \<and>
   fst (extractZip (unchecked_module no_proofs) 0
          (loaded (unchecked_module no_proofs) [crx2_file [] [] [0x50]]))
     = Threw missing_signature"
proof -
  let ?w = "spec_module no_proofs False"
  let ?s = "loaded ?w [pk_file]"
  let ?z = "\<lparr>array_buffer = 1, byteOffset = 0, byteLength = 4\<rparr>"
  let ?s1 = "?s\<lparr>heap := [pk_file, [0x50, 0x4B, 3, 4]]\<rparr>"
  let ?u = "unchecked_module no_proofs"
  let ?t = "loaded ?u [crx2_file [] [] [0x50]]"
  have a: "extractZip ?w 0 ?s = (Returned ?z, ?s1)" by code_simp
  have h: "heap ?s1 = [pk_file, [0x50, 0x4B, 3, 4]]" by simp
  have b: "wasm_instance ?t" by code_simp
  have c: "extract_zip_data ?u (contents (heap ?t) 0) = Inr [0x50]" by code_simp
  have d: "length [0x50 :: byte] < 2" by simp
  from extractZip_returns_zip [of ?w 0 ?s] a h
  have 1: "bytes_of [pk_file, [0x50, 0x4B, 3, 4]] ?z ! 0 = 0x50 \<and>
           bytes_of [pk_file, [0x50, 0x4B, 3, 4]] ?z ! 1 = 0x4B"
    by metis
  from extractZip_returns_zip [of ?u 0 ?t] b c d
  have 2: "fst (extractZip ?u 0 ?t) = Threw missing_signature"
    by blast
  from a 1 2 c show ?thesis by blast
qed

subsection \<open>C9: initialization\<close>

text \<open>
  C9. \<open>CrxParser.parse\<close> initializes the module before it calls \<open>parse_crx\<close>: when
  the module is instantiated already or instantiating it succeeds, \<open>parse\<close> returns
  what \<open>parse_crx\<close> returns on the bytes of the buffer (as fresh arrays) or throws what
  it throws, whether or not the module was initialized before, and the module is
  initialized afterwards; when instantiating fails, \<open>parse\<close> throws that failure.
  \<open>extractZip\<close> and \<open>manualExtractZip\<close> do not initialize: in a state where the module
  is not initialized they throw and leave it so; in a state where it is, \<open>extractZip\<close>
  calls \<open>extract_zip_data\<close> on the bytes of the buffer and \<open>manualExtractZip\<close> calls
  \<open>parse_crx\<close> on the bytes of its argument, and their results are built from what
  these return. After a successful \<open>initialize\<close> or \<open>parse\<close> the module is initialized,
  and it stays so. No function writes \<open>initialized\<close> or \<open>initPromise\<close>.
\<close>

theorem initialization_protocol:
  "(wasm_instance s \<or> instantiate w = None \<longrightarrow>
      parse w buffer s =
        (case parse_crx w (contents (heap s) buffer) of
           Inl e \<Rightarrow> (Threw e, s\<lparr>wasm_instance := True\<rparr>)
         | Inr info \<Rightarrow>
             (Returned \<lparr>version = crx_info.version info,
                 publicKey = \<lparr>array_buffer = length (heap s), byteOffset = 0,
                               byteLength = length (public_key info)\<rparr>,
                 signature = \<lparr>array_buffer = Suc (length (heap s)), byteOffset = 0,
                               byteLength = length (crx_info.signature info)\<rparr>,
                 zipOffset = crx_info.zip_offset info\<rparr>,
              s\<lparr>wasm_instance := True,
                heap := heap s @ [public_key info, crx_info.signature info]\<rparr>))) \<and>
   (\<forall>e. \<not> wasm_instance s \<and> instantiate w = Some e \<longrightarrow> parse w buffer s = (Threw e, s)) \<and>
   (instantiate w = None \<longrightarrow>
      fst (parse w buffer s) = fst (parse w buffer (s\<lparr>wasm_instance := True\<rparr>)) \<and>
      wasm_instance (snd (parse w buffer s))) \<and>
   (\<not> wasm_instance s \<longrightarrow>
      extractZip w buffer s = (Threw not_initialized, s) \<and>
      manualExtractZip w bytes s = (Threw (failed_to_extract not_initialized), s)) \<and>
   (wasm_instance s \<longrightarrow>
      extractZip w buffer s =
        (case extract_zip_data w (contents (heap s) buffer) of
           Inl e \<Rightarrow> (Threw e, s)
         | Inr payload \<Rightarrow>
             if take 2 payload = [0x50, 0x4B]
             then (Returned \<lparr>array_buffer = length (heap s), byteOffset = 0,
                              byteLength = length payload\<rparr>,
                   s\<lparr>heap := heap s @ [payload]\<rparr>)
             else (Threw missing_signature, s\<lparr>heap := heap s @ [payload]\<rparr>)) \<and>
      manualExtractZip w bytes s =
        (case parse_crx w (bytes_of (heap s) bytes) of
           Inl e \<Rightarrow> (Threw (failed_to_extract e), s)
         | Inr info \<Rightarrow>
             (Returned \<lparr>array_buffer = length (heap s), byteOffset = 0,
                byteLength = length (bytes_of (heap s) bytes) - crx_info.zip_offset info\<rparr>,
              s\<lparr>heap := heap s @
                   [drop (crx_info.zip_offset info) (bytes_of (heap s) bytes)]\<rparr>))) \<and>
   (\<forall>s1. initialize w s = (Returned (), s1) \<longrightarrow> wasm_instance s1) \<and>
   (\<forall>r s1. parse w buffer s = (Returned r, s1) \<longrightarrow> wasm_instance s1) \<and>
   (wasm_instance s \<longrightarrow>
      wasm_instance (snd (extractZip w buffer s)) \<and>
      wasm_instance (snd (manualExtractZip w bytes s))) \<and>
   initialized (snd (initialize w s)) = initialized s \<and>
   initPromise (snd (initialize w s)) = initPromise s \<and>
   initialized (snd (parse w buffer s)) = initialized s \<and>
   initPromise (snd (parse w buffer s)) = initPromise s \<and>
   initialized (snd (extractZip w buffer s)) = initialized s \<and>
   initPromise (snd (extractZip w buffer s)) = initPromise s \<and>
   initialized (snd (manualExtractZip w bytes s)) = initialized s \<and>
   initPromise (snd (manualExtractZip w bytes s)) = initPromise s"
proof -
  have 1: "wasm_instance s \<or> instantiate w = None \<longrightarrow>
      parse w buffer s =
        (case parse_crx w (contents (heap s) buffer) of
           Inl e \<Rightarrow> (Threw e, s\<lparr>wasm_instance := True\<rparr>)
         | Inr info \<Rightarrow>
             (Returned \<lparr>version = crx_info.version info,
                 publicKey = \<lparr>array_buffer = length (heap s), byteOffset = 0,
                               byteLength = length (public_key info)\<rparr>,
                 signature = \<lparr>array_buffer = Suc (length (heap s)), byteOffset = 0,
                               byteLength = length (crx_info.signature info)\<rparr>,
                 zipOffset = crx_info.zip_offset info\<rparr>,
              s\<lparr>wasm_instance := True,
                heap := heap s @ [public_key info, crx_info.signature info]\<rparr>))"
    by (auto simp: parse_eq)
  have 2: "\<forall>e. \<not> wasm_instance s \<and> instantiate w = Some e \<longrightarrow> parse w buffer s = (Threw e, s)"
    by (simp add: parse_eq)
  have 3: "wasm_instance s \<longrightarrow>
      extractZip w buffer s =
        (case extract_zip_data w (contents (heap s) buffer) of
           Inl e \<Rightarrow> (Threw e, s)
         | Inr payload \<Rightarrow>
             if take 2 payload = [0x50, 0x4B]
             then (Returned \<lparr>array_buffer = length (heap s), byteOffset = 0,
                              byteLength = length payload\<rparr>,
                   s\<lparr>heap := heap s @ [payload]\<rparr>)
             else (Threw missing_signature, s\<lparr>heap := heap s @ [payload]\<rparr>)) \<and>
      manualExtractZip w bytes s =
        (case parse_crx w (bytes_of (heap s) bytes) of
           Inl e \<Rightarrow> (Threw (failed_to_extract e), s)
         | Inr info \<Rightarrow>
             (Returned \<lparr>array_buffer = length (heap s), byteOffset = 0,
                byteLength = length (bytes_of (heap s) bytes) - crx_info.zip_offset info\<rparr>,
              s\<lparr>heap := heap s @
                   [drop (crx_info.zip_offset info) (bytes_of (heap s) bytes)]\<rparr>))"
    by (simp add: extractZip_eq manualExtractZip_eq)
  have 4: "(instantiate w = None \<longrightarrow>
      fst (parse w buffer s) = fst (parse w buffer (s\<lparr>wasm_instance := True\<rparr>)) \<and>
      wasm_instance (snd (parse w buffer s))) \<and>
   (\<not> wasm_instance s \<longrightarrow>
      extractZip w buffer s = (Threw not_initialized, s) \<and>
      manualExtractZip w bytes s = (Threw (failed_to_extract not_initialized), s)) \<and>
   (\<forall>s1. initialize w s = (Returned (), s1) \<longrightarrow> wasm_instance s1) \<and>
   (\<forall>r s1. parse w buffer s = (Returned r, s1) \<longrightarrow> wasm_instance s1) \<and>
   (wasm_instance s \<longrightarrow>
      wasm_instance (snd (extractZip w buffer s)) \<and>
      wasm_instance (snd (manualExtractZip w bytes s)))"
    by (auto simp: parse_eq extractZip_eq manualExtractZip_eq initialize_eq
        split: sum.splits option.splits if_splits)
  have 5: "initialized (snd (initialize w s)) = initialized s \<and>
   initPromise (snd (initialize w s)) = initPromise s \<and>
   initialized (snd (parse w buffer s)) = initialized s \<and>
   initPromise (snd (parse w buffer s)) = initPromise s \<and>
   initialized (snd (extractZip w buffer s)) = initialized s \<and>
   initPromise (snd (extractZip w buffer s)) = initPromise s \<and>
   initialized (snd (manualExtractZip w bytes s)) = initialized s \<and>
   initPromise (snd (manualExtractZip w bytes s)) = initPromise s"
    by (auto simp: parse_eq extractZip_eq manualExtractZip_eq initialize_eq
        split: sum.splits option.splits if_splits)
  from 1 2 3 4 5 show ?thesis by blast
qed

text \<open>
  C9, witness: one CRX2 file; \<open>parse\<close>, \<open>extractZip\<close> and \<open>manualExtractZip\<close> on a
  freshly loaded module, and the two extractions again after \<open>initialize\<close>.
\<close>

theorem initialization_protocol_witness:
  "fst (parse (spec_module no_proofs True) 0 (fresh_module [pk_file])) =
     fst (parse (spec_module no_proofs True) 0 ((fresh_module [pk_file])\<lparr>wasm_instance := True\<rparr>)) \<and>
   wasm_instance (snd (parse (spec_module no_proofs True) 0 (fresh_module [pk_file]))) \<and>
   parse (spec_module no_proofs True) 0 (fresh_module [pk_file]) =
     (Returned \<lparr>version = 2,
        publicKey = \<lparr>array_buffer = 1, byteOffset = 0, byteLength = 3\<rparr>,
        signature = \<lparr>array_buffer = 2, byteOffset = 0, byteLength = 3\<rparr>,
        zipOffset = 22\<rparr>,
      (fresh_module [pk_file])
        \<lparr>wasm_instance := True, heap := [pk_file, ascii ''key'', ascii ''sig'']\<rparr>) \<and>
   extractZip (spec_module no_proofs True) 0 (fresh_module [pk_file]) =
     (Threw not_initialized, fresh_module [pk_file]) \<and>
   manualExtractZip (spec_module no_proofs True) (new_Uint8Array 0 (fresh_module [pk_file]))
       (fresh_module [pk_file]) =
     (Threw (failed_to_extract not_initialized), fresh_module [pk_file]) \<and>
   wasm_instance (loaded (spec_module no_proofs True) [pk_file]) \<and>
   extractZip (spec_module no_proofs True) 0 (loaded (spec_module no_proofs True) [pk_file]) =
     (Returned \<lparr>array_buffer = 1, byteOffset = 0, byteLength = 4\<rparr>,
      (loaded (spec_module no_proofs True) [pk_file])\<lparr>heap := [pk_file, [0x50, 0x4B, 3, 4]]\<rparr>) \<and>
   manualExtractZip (spec_module no_proofs True)
       (new_Uint8Array 0 (loaded (spec_module no_proofs True) [pk_file]))
       (loaded (spec_module no_proofs True) [pk_file]) =
     (Returned \<lparr>array_buffer = 1, byteOffset = 0, byteLength = 4\<rparr>,
      (loaded (spec_module no_proofs True) [pk_file])\<lparr>heap := [pk_file, [0x50, 0x4B, 3, 4]]\<rparr>)"
proof -
  let ?w = "spec_module no_proofs True"
  let ?s = "fresh_module [pk_file]"
  let ?l = "loaded ?w [pk_file]"
  let ?v = "new_Uint8Array 0 ?l"
  let ?info = "\<lparr>crx_info.version = 2, public_key = ascii ''key'',
                crx_info.signature = ascii ''sig'', crx_info.zip_offset = 22\<rparr>"
  have a: "instantiate ?w = None" by (simp add: spec_module_def)
  have b: "\<not> wasm_instance ?s" by (simp add: fresh_module_def)
  have c: "initialize ?w ?s = (Returned (), ?l)" by code_simp
  have hs: "heap ?s = [pk_file]" by (simp add: fresh_module_def)
  have hl: "heap ?l = [pk_file]" by code_simp
  have la: "length (heap ?l) = 1" and ha: "heap ?l @ xs = pk_file # xs" for xs
    by (simp_all add: hl)
  have k: "length (ascii ''key'') = 3" "length (ascii ''sig'') = 3" by (simp_all add: ascii_def)
  have ps: "parse_crx ?w (contents (heap ?s) 0) = Inr ?info" by code_simp
  have pl: "parse_crx ?w (bytes_of (heap ?l) ?v) = Inr ?info" by code_simp
  have el: "extract_zip_data ?w (contents (heap ?l) 0) = Inr [0x50, 0x4B, 3, 4]" by code_simp
  have bl: "length (bytes_of (heap ?l) ?v) = 26"
    "drop 22 (bytes_of (heap ?l) ?v) = [0x50, 0x4B, 3, 4]"
    by code_simp+
  from initialization_protocol [where w = ?w and buffer = 0 and s = ?s] a
  have 1: "fst (parse ?w 0 ?s) = fst (parse ?w 0 (?s\<lparr>wasm_instance := True\<rparr>)) \<and>
           wasm_instance (snd (parse ?w 0 ?s))"
    by blast
  from initialization_protocol [where w = ?w and buffer = 0 and s = ?s and bytes = "new_Uint8Array 0 ?s"] b
  have 2: "extractZip ?w 0 ?s = (Threw not_initialized, ?s) \<and>
           manualExtractZip ?w (new_Uint8Array 0 ?s) ?s =
             (Threw (failed_to_extract not_initialized), ?s)"
    by blast
  from initialization_protocol [where w = ?w and buffer = 0 and s = ?s] c
  have 3: "wasm_instance ?l"
    by blast
  from initialization_protocol [where w = ?w and buffer = 0 and s = ?s] a
  have "parse ?w 0 ?s =
        (case parse_crx ?w (contents (heap ?s) 0) of
           Inl e \<Rightarrow> (Threw e, ?s\<lparr>wasm_instance := True\<rparr>)
         | Inr info \<Rightarrow>
             (Returned \<lparr>version = crx_info.version info,
                 publicKey = \<lparr>array_buffer = length (heap ?s), byteOffset = 0,
                               byteLength = length (public_key info)\<rparr>,
                 signature = \<lparr>array_buffer = Suc (length (heap ?s)), byteOffset = 0,
                               byteLength = length (crx_info.signature info)\<rparr>,
                 zipOffset = crx_info.zip_offset info\<rparr>,
              ?s\<lparr>wasm_instance := True,
                 heap := heap ?s @ [public_key info, crx_info.signature info]\<rparr>))"
    by blast
  then have 4: "parse ?w 0 ?s =
     (Returned \<lparr>version = 2,
        publicKey = \<lparr>array_buffer = 1, byteOffset = 0, byteLength = 3\<rparr>,
        signature = \<lparr>array_buffer = 2, byteOffset = 0, byteLength = 3\<rparr>,
        zipOffset = 22\<rparr>,
      ?s\<lparr>wasm_instance := True, heap := [pk_file, ascii ''key'', ascii ''sig'']\<rparr>)"
    by (simp only: ps sum.case) (simp add: hs k)
  from initialization_protocol [where w = ?w and buffer = 0 and s = ?l and bytes = ?v] 3
  have "extractZip ?w 0 ?l =
        (case extract_zip_data ?w (contents (heap ?l) 0) of
           Inl e \<Rightarrow> (Threw e, ?l)
         | Inr payload \<Rightarrow>
             if take 2 payload = [0x50, 0x4B]
             then (Returned \<lparr>array_buffer = length (heap ?l), byteOffset = 0,
                              byteLength = length payload\<rparr>,
                   ?l\<lparr>heap := heap ?l @ [payload]\<rparr>)
             else (Threw missing_signature, ?l\<lparr>heap := heap ?l @ [payload]\<rparr>))"
    and "manualExtractZip ?w ?v ?l =
        (case parse_crx ?w (bytes_of (heap ?l) ?v) of
           Inl e \<Rightarrow> (Threw (failed_to_extract e), ?l)
         | Inr info \<Rightarrow>
             (Returned \<lparr>array_buffer = length (heap ?l), byteOffset = 0,
                byteLength = length (bytes_of (heap ?l) ?v) - crx_info.zip_offset info\<rparr>,
              ?l\<lparr>heap := heap ?l @
                   [drop (crx_info.zip_offset info) (bytes_of (heap ?l) ?v)]\<rparr>))"
    by blast+
  then have 5: "extractZip ?w 0 ?l =
     (Returned \<lparr>array_buffer = 1, byteOffset = 0, byteLength = 4\<rparr>,
      ?l\<lparr>heap := [pk_file, [0x50, 0x4B, 3, 4]]\<rparr>)"
    and 6: "manualExtractZip ?w ?v ?l =
     (Returned \<lparr>array_buffer = 1, byteOffset = 0, byteLength = 4\<rparr>,
      ?l\<lparr>heap := [pk_file, [0x50, 0x4B, 3, 4]]\<rparr>)"
    by (simp_all add: el pl la ha bl)
  from 1 2 3 4 5 6 show ?thesis by blast
qed

subsection \<open>C10: results do not alias the input\<close>

text \<open>
  C10. The arrays \<open>publicKey\<close> and \<open>signature\<close> returned by \<open>CrxParser.parse\<close> lie in
  storage allocated by the call, distinct from the input buffer and from each other:
  any sequence of writes through views of the input buffer leaves the returned
  result unchanged (\<open>version\<close> and \<open>zipOffset\<close> are numbers), and any sequence of
  writes into the returned arrays leaves the input buffer unchanged. Likewise the
  array returned by \<open>manualExtractZip\<close> lies in new storage, and writes to it and to
  the input do not affect each other.
\<close>

theorem results_are_fresh_copies:
  "(\<forall>r s1. buffer < length (heap s) \<and> parse w buffer s = (Returned r, s1) \<longrightarrow>
      length (heap s) \<le> array_buffer (publicKey r) \<and>
      length (heap s) \<le> array_buffer (signature r) \<and>
      array_buffer (publicKey r) \<noteq> array_buffer (signature r) \<and>
      (\<forall>ws. (\<forall>(v, i, x) \<in> set ws. array_buffer v = buffer) \<longrightarrow>
         parsed_value (heap (stores ws s1)) (Returned r) = parsed_value (heap s1) (Returned r)) \<and>
      (\<forall>ws. (\<forall>(v, i, x) \<in> set ws. v = publicKey r \<or> v = signature r) \<longrightarrow>
         contents (heap (stores ws s1)) buffer = contents (heap s1) buffer)) \<and>
   (\<forall>zipData s1. array_buffer bytes < length (heap s) \<and>
        manualExtractZip w bytes s = (Returned zipData, s1) \<longrightarrow>
      array_buffer zipData = length (heap s) \<and>
      (\<forall>ws. (\<forall>(v, i, x) \<in> set ws. array_buffer v = array_buffer bytes) \<longrightarrow>
         bytes_of (heap (stores ws s1)) zipData = bytes_of (heap s1) zipData) \<and>
      (\<forall>ws. (\<forall>(v, i, x) \<in> set ws. v = zipData) \<longrightarrow>
         bytes_of (heap (stores ws s1)) bytes = bytes_of (heap s1) bytes))"
proof (intro conjI allI impI)
  fix r s1
  assume h: "buffer < length (heap s) \<and> parse w buffer s = (Returned r, s1)"
  then have pk: "array_buffer (publicKey r) = length (heap s)"
    and sg: "array_buffer (signature r) = Suc (length (heap s))"
    using parse_returned by blast+
  from pk show "length (heap s) \<le> array_buffer (publicKey r)" by simp
  from sg show "length (heap s) \<le> array_buffer (signature r)" by simp
  from pk sg show "array_buffer (publicKey r) \<noteq> array_buffer (signature r)" by simp
  {
    fix ws :: "(uint8array \<times> nat \<times> byte) list"
    assume "\<forall>(v, i, x) \<in> set ws. array_buffer v = buffer"
    with h pk sg have "\<forall>(v, i, x) \<in> set ws. array_buffer v \<noteq> array_buffer (publicKey r)"
      and "\<forall>(v, i, x) \<in> set ws. array_buffer v \<noteq> array_buffer (signature r)"
      by auto
    then show "parsed_value (heap (stores ws s1)) (Returned r) =
        parsed_value (heap s1) (Returned r)"
      by (simp add: bytes_of_stores_other)
  }
  {
    fix ws :: "(uint8array \<times> nat \<times> byte) list"
    assume "\<forall>(v, i, x) \<in> set ws. v = publicKey r \<or> v = signature r"
    with h pk sg have "\<forall>(v, i, x) \<in> set ws. array_buffer v \<noteq> buffer"
      by auto
    then show "contents (heap (stores ws s1)) buffer = contents (heap s1) buffer"
      by (rule contents_stores_other)
  }
next
  fix zipData s1
  assume h: "array_buffer bytes < length (heap s) \<and>
        manualExtractZip w bytes s = (Returned zipData, s1)"
  then show z: "array_buffer zipData = length (heap s)"
    using manualExtractZip_returned by blast
  {
    fix ws :: "(uint8array \<times> nat \<times> byte) list"
    assume "\<forall>(v, i, x) \<in> set ws. array_buffer v = array_buffer bytes"
    with h z have "\<forall>(v, i, x) \<in> set ws. array_buffer v \<noteq> array_buffer zipData"
      by auto
    then show "bytes_of (heap (stores ws s1)) zipData = bytes_of (heap s1) zipData"
      by (rule bytes_of_stores_other)
  }
  {
    fix ws :: "(uint8array \<times> nat \<times> byte) list"
    assume "\<forall>(v, i, x) \<in> set ws. v = zipData"
    with h z have "\<forall>(v, i, x) \<in> set ws. array_buffer v \<noteq> array_buffer bytes"
      by auto
    then show "bytes_of (heap (stores ws s1)) bytes = bytes_of (heap s1) bytes"
      by (rule bytes_of_stores_other)
  }
qed

text \<open>
  C10, witness: after \<open>parse\<close>, overwriting byte 16 of the input (the first byte of
  the key) changes the input and not the result; after \<open>manualExtractZip\<close>,
  overwriting byte 22 of the input leaves the returned payload as it was.
\<close>

theorem results_are_fresh_copies_witness:
  "parsed_value
     (heap (stores [(new_Uint8Array 0 (fresh_module [pk_file]), 16, 0)]
              (snd (parse (spec_module no_proofs True) 0 (fresh_module [pk_file])))))
     (fst (parse (spec_module no_proofs True) 0 (fresh_module [pk_file])))
   = Returned (2, ascii ''key'', ascii ''sig'', 22) \<and>
   contents
     (heap (stores [(new_Uint8Array 0 (fresh_module [pk_file]), 16, 0)]
              (snd (parse (spec_module no_proofs True) 0 (fresh_module [pk_file]))))) 0
   \<noteq> pk_file \<and>
   bytes_of
     (heap (stores [(new_Uint8Array 0 (fresh_module [pk_file]), 22, 0)]
              (snd (manualExtractZip (spec_module no_proofs True)
                      (new_Uint8Array 0 (fresh_module [pk_file]))
                      (loaded (spec_module no_proofs True) [pk_file])))))
     \<lparr>array_buffer = 1, byteOffset = 0, byteLength = 4\<rparr>
   = [0x50, 0x4B, 3, 4]"
proof -
  let ?w = "spec_module no_proofs True"
  let ?s = "fresh_module [pk_file]"
  let ?v = "new_Uint8Array 0 ?s"
  let ?r = "\<lparr>version = 2, publicKey = \<lparr>array_buffer = 1, byteOffset = 0, byteLength = 3\<rparr>,
             signature = \<lparr>array_buffer = 2, byteOffset = 0, byteLength = 3\<rparr>, zipOffset = 22\<rparr>"
  let ?s1 = "snd (parse ?w 0 ?s)"
  let ?l = "loaded ?w [pk_file]"
  let ?z = "\<lparr>array_buffer = 1, byteOffset = 0, byteLength = 4\<rparr>"
  let ?l1 = "snd (manualExtractZip ?w ?v ?l)"
  have a: "0 < length (heap ?s)" and a': "array_buffer ?v < length (heap ?l)" by code_simp+
  have b: "parse ?w 0 ?s = (Returned ?r, ?s1)" by code_simp
  let ?ws = "[(?v, 16, 0)] :: (uint8array \<times> nat \<times> byte) list"
  let ?ws' = "[(?v, 22, 0)] :: (uint8array \<times> nat \<times> byte) list"
  have c: "\<forall>(v, i, x) \<in> set ?ws. array_buffer v = 0"
    and c': "\<forall>(v, i, x) \<in> set ?ws'. array_buffer v = array_buffer ?v"
    by (simp_all add: new_Uint8Array_def)
  have d: "parsed_value (heap ?s1) (Returned ?r) = Returned (2, ascii ''key'', ascii ''sig'', 22)"
    by code_simp
  have e: "contents (heap (stores ?ws ?s1)) 0 \<noteq> pk_file" by code_simp
  have f: "manualExtractZip ?w ?v ?l = (Returned ?z, ?l1)" by code_simp
  have g: "bytes_of (heap ?l1) ?z = [0x50, 0x4B, 3, 4]" by code_simp
  from results_are_fresh_copies [of 0 ?s ?w] a b
  have "\<forall>ws. (\<forall>(v, i, x) \<in> set ws. array_buffer v = 0) \<longrightarrow>
          parsed_value (heap (stores ws ?s1)) (Returned ?r) = parsed_value (heap ?s1) (Returned ?r)"
    by blast
  then have "(\<forall>(v, i, x) \<in> set ?ws. array_buffer v = 0) \<longrightarrow>
          parsed_value (heap (stores ?ws ?s1)) (Returned ?r) = parsed_value (heap ?s1) (Returned ?r)"
    by (rule spec)
  with c d
  have 1: "parsed_value (heap (stores ?ws ?s1)) (Returned ?r) =
             Returned (2, ascii ''key'', ascii ''sig'', 22)"
    by simp
  from results_are_fresh_copies [of 0 ?l ?w ?v] a' f
  have "\<forall>ws. (\<forall>(v, i, x) \<in> set ws. array_buffer v = array_buffer ?v) \<longrightarrow>
          bytes_of (heap (stores ws ?l1)) ?z = bytes_of (heap ?l1) ?z"
    by blast
  then have "(\<forall>(v, i, x) \<in> set ?ws'. array_buffer v = array_buffer ?v) \<longrightarrow>
          bytes_of (heap (stores ?ws' ?l1)) ?z = bytes_of (heap ?l1) ?z"
    by (rule spec)
  with c' g
  have 2: "bytes_of (heap (stores ?ws' ?l1)) ?z = [0x50, 0x4B, 3, 4]"
    by simp
  have "fst (parse ?w 0 ?s) = Returned ?r" by code_simp
  with 1 2 e show ?thesis by simp
qed

end
